theory Spec2Isabelle
  imports Complex_Main
begin

section \<open>LFAudio: the queue-driven audio player of \<^verbatim>\<open>LFAudio.py\<close>\<close>

text \<open>
  The class \<^verbatim>\<open>Player\<close> is embedded as a record of its fields and one function per
  method, taking the player and returning the player it leaves behind. A Python exception
  is a value of \<open>error\<close> on the left of a sum. What \<^verbatim>\<open>L.pln\<close> prints
  is appended to the field \<open>printed\<close>. Sample amplitudes are reals (the arithmetic of
  floats is idealised); a frame is a pair of amplitudes, the row of a two-channel numpy array.
\<close>

subsection \<open>Python values, exceptions and printed reports\<close>

datatype error =
  AttributeError | TypeError | IndexError | ValueError | ZeroDivisionError | OverflowError

text \<open>An argument of a method, before any \<^verbatim>\<open>isinstance\<close> check: an int, a str,
  \<^verbatim>\<open>None\<close>, or an object of any other type.\<close>

datatype pyval = PInt int | PStr string | PNone | PObj

datatype report =
    NextTrack
  | QueueAlreadyEmpty
  | PositionNotInteger
  | PositionOutOfRange
  | AddTrackFirst
  | LoopNotInteger
  | GradualVolumeChange
  | PathNotString
  | Loading string
  | WaitingPendingLoad
  | FileTooLarge
  | NonStandardRate string
  | Resampled string
  | Loaded string
  | NotAudioFile string
  | TimeposInvalid pyval
  | TimeposOutOfBounds pyval

type_synonym frame = "real \<times> real"

text \<open>The step of a paced volume change in dB: \<^verbatim>\<open>np.log10(0)\<close> is \<^verbatim>\<open>-inf\<close>, and
  \<^verbatim>\<open>np.log10\<close> of a negative number is \<^verbatim>\<open>nan\<close>.\<close>

datatype dbstep = Finite real | MinusInf | PlusInf | NaN

subsection \<open>The fields of a Player\<close>

record player =
  queuePos :: "int option"
  loading :: bool
  sources :: "string list"
  loops :: "int list"
  data :: "frame list list"
  ramBuffer :: int
  samplingrate :: int
  playing :: bool
  endTrack :: bool
  endQueue :: bool
  queueLoops :: int
  queueLoopsRemaining :: int
  callPos :: int
  volume :: real
  targetVolume :: "real option"
  volumeChange :: "dbstep option"
  settingDelay :: real
  minDelay :: real
  blockSize :: int
  end_flag :: bool
  printed :: "report list"

text \<open>The constructor \<^verbatim>\<open>__init__\<close> (the stream and the settings thread are not part of
  the state).\<close>

definition Player :: player where
  "Player = \<lparr> queuePos = None, loading = False, sources = [], loops = [], data = [],
     ramBuffer = 16777216, samplingrate = 44100, playing = False, endTrack = False,
     endQueue = False, queueLoops = 1, queueLoopsRemaining = 1, callPos = 0, volume = 1,
     targetVolume = None, volumeChange = None, settingDelay = 5 / 100, minDelay = 5 / 100,
     blockSize = 1028, end_flag = False, printed = [] \<rparr>"

definition pln :: "player \<Rightarrow> report \<Rightarrow> player" where
  "pln p r = p\<lparr>printed := printed p @ [r]\<rparr>"

subsection \<open>Python lists\<close>

text \<open>\<^verbatim>\<open>xs[i]\<close>: a negative index counts from the end, an index out of range raises.\<close>

definition py_index :: "'a list \<Rightarrow> int \<Rightarrow> error + 'a" where
  "py_index xs i =
     (let n = int (length xs); j = (if i < 0 then i + n else i)
      in if 0 \<le> j \<and> j < n then Inr (xs ! nat j) else Inl IndexError)"

text \<open>\<^verbatim>\<open>xs[i] = v\<close>.\<close>

definition py_store :: "'a list \<Rightarrow> int \<Rightarrow> 'a \<Rightarrow> error + 'a list" where
  "py_store xs i v =
     (let n = int (length xs); j = (if i < 0 then i + n else i)
      in if 0 \<le> j \<and> j < n then Inr (xs[nat j := v]) else Inl IndexError)"

text \<open>\<^verbatim>\<open>xs.pop(i)\<close>, the list that remains.\<close>

definition py_pop :: "'a list \<Rightarrow> int \<Rightarrow> error + 'a list" where
  "py_pop xs i =
     (let n = int (length xs); j = (if i < 0 then i + n else i)
      in if 0 \<le> j \<and> j < n then Inr (take (nat j) xs @ drop (Suc (nat j)) xs)
         else Inl IndexError)"

text \<open>A bound of a slice is clamped to the list: \<^verbatim>\<open>xs[a:b]\<close> never raises.\<close>

definition py_bound :: "int \<Rightarrow> int \<Rightarrow> nat" where
  "py_bound n i = nat (if i < 0 then max 0 (i + n) else min i n)"

definition py_slice :: "'a list \<Rightarrow> int \<Rightarrow> int \<Rightarrow> 'a list" where
  "py_slice xs a b =
     (let n = int (length xs); lo = py_bound n a; hi = py_bound n b
      in take (hi - lo) (drop lo xs))"

subsection \<open>The numpy operations of the render callback\<close>

text \<open>
  The arrays that occur: a two-dimensional array of shape \<open>(n, 2)\<close>, one row per frame,
  and the one-dimensional empty array of shape \<open>(0,)\<close>, which is what numpy makes of the
  empty Python list.
\<close>

datatype ndarray = Arr1 | Arr2 "frame list"

definition as_array :: "frame list \<Rightarrow> ndarray" where
  "as_array xs = (if xs = [] then Arr1 else Arr2 xs)"

text \<open>\<^verbatim>\<open>np.append(a, b, axis=0)\<close> is \<^verbatim>\<open>concatenate((a, b), axis=0)\<close>, which raises
  ValueError unless both arrays have the same number of dimensions.\<close>

fun np_append :: "ndarray \<Rightarrow> ndarray \<Rightarrow> error + ndarray" where
  "np_append Arr1 Arr1 = Inr Arr1"
| "np_append (Arr2 a) (Arr2 b) = Inr (Arr2 (a @ b))"
| "np_append Arr1 (Arr2 b) = Inl ValueError"
| "np_append (Arr2 a) Arr1 = Inl ValueError"

text \<open>\<^verbatim>\<open>np.zeros((n, 2))\<close>.\<close>

definition np_zeros :: "int \<Rightarrow> error + ndarray" where
  "np_zeros n = (if n < 0 then Inl ValueError else Inr (Arr2 (replicate (nat n) (0, 0))))"

text \<open>\<^verbatim>\<open>outdata[:] = a\<close> with \<open>outdata\<close> of shape \<open>(l, 2)\<close>: the value is broadcast, so it
  must have \<open>l\<close> rows or one row; any other shape raises ValueError.\<close>

fun assign_all :: "frame list \<Rightarrow> ndarray \<Rightarrow> error + frame list" where
  "assign_all outdata Arr1 = Inl ValueError"
| "assign_all outdata (Arr2 xs) =
     (if length xs = length outdata then Inr xs
      else (case xs of [x] \<Rightarrow> Inr (replicate (length outdata) x) | _ \<Rightarrow> Inl ValueError))"

text \<open>\<^verbatim>\<open>np.multiply(sample, volume)\<close> and \<^verbatim>\<open>sample * volume\<close> on a row of a
  numpy array, which is what a stereo or a resampled source stores. The rows of a mono source
  loaded without resampling are Python lists (line 267): on those, line 150's
  \<^verbatim>\<open>sample * self.volume\<close> repeats the list for an int volume and raises TypeError for
  a float one. Tracks with such rows are outside this model.\<close>

definition scale :: "real \<Rightarrow> frame \<Rightarrow> frame" where
  "scale v s = (fst s * v, snd s * v)"

subsection \<open>Transport\<close>

definition stop :: "player \<Rightarrow> player" where
  "stop p = p\<lparr>playing := False, callPos := 0\<rparr>"

definition pause :: "player \<Rightarrow> player" where
  "pause p = p\<lparr>playing := False\<rparr>"

definition play :: "player \<Rightarrow> player" where
  "play p = (if length (sources p) = 0 then pln p AddTrackFirst else p\<lparr>playing := True\<rparr>)"

definition playPause :: "player \<Rightarrow> player" where
  "playPause p = (if playing p then pause p else play p)"

definition nextTrack :: "player \<Rightarrow> error + player" where
  "nextTrack p =
     (if length (sources p) = 0 then Inr (pln p AddTrackFirst)
      else
        let p1 = p\<lparr>callPos := 0\<rparr>;
            p2 = (if queuePos p1 = Some (int (length (sources p1)) - 1)
                     \<and> \<not> queueLoopsRemaining p1 = 0
                  then (stop p1)\<lparr>queueLoopsRemaining := queueLoops p1\<rparr>
                  else p1)
        in case queuePos p2 of
             None \<Rightarrow> Inl TypeError
           | Some q \<Rightarrow>
               Inr (pln (p2\<lparr>queuePos := Some ((q + 1) mod int (length (sources p2)))\<rparr>)
                        NextTrack))"

subsection \<open>The render callback\<close>

text \<open>The outcome of the block "Check if the track is over": the call has returned with the
  buffer written, or goes on to append the head of the current track.\<close>

datatype over = Returned player "frame list" | Goes_on player

text \<open>Lines 124 to 148, entered with \<open>callPos\<close> already set to the number of frames still
  missing; \<open>q\<close> is \<open>queuePos\<close>, \<open>dataOut\<close> the scaled tail of the track.\<close>

definition track_over :: "player \<Rightarrow> int \<Rightarrow> frame list \<Rightarrow> frame list \<Rightarrow> error + over" where
  "track_over p q dataOut outdata =
     (case py_index (loops p) q of
        Inl e \<Rightarrow> Inl e
      | Inr lq \<Rightarrow>
          if lq > 1 then
            (case py_store (loops p) q (lq - 1) of
               Inl e \<Rightarrow> Inl e
             | Inr ls \<Rightarrow> Inr (Goes_on (p\<lparr>loops := ls\<rparr>)))
          else if lq = 1 then
            (let p1 = p\<lparr>endTrack := True\<rparr> in
             if q + 1 = int (length (sources p1)) then
               (let p2 = p1\<lparr>queuePos := Some 0\<rparr> in
                if queueLoopsRemaining p2 > 1 then
                  Inr (Goes_on (pln (p2\<lparr>queueLoopsRemaining := queueLoopsRemaining p2 - 1\<rparr>)
                                    NextTrack))
                else if queueLoopsRemaining p2 = 1 then
                  (let p3 = p2\<lparr>endQueue := True\<rparr> in
                   case np_zeros (callPos p3) of
                     Inl e \<Rightarrow> Inl e
                   | Inr zs \<Rightarrow>
                       (case np_append (as_array dataOut) zs of
                          Inl e \<Rightarrow> Inl e
                        | Inr arr \<Rightarrow>
                            (case assign_all outdata arr of
                               Inl e \<Rightarrow> Inl e
                             | Inr out \<Rightarrow>
                                 Inr (Returned
                                   ((stop p3)\<lparr>queueLoopsRemaining := queueLoops p3\<rparr>) out))))
                else Inr (Goes_on (pln p2 NextTrack)))
             else Inr (Goes_on (pln (p1\<lparr>queuePos := Some (q + 1)\<rparr>) NextTrack)))
          else Inr (Goes_on p))"

text \<open>Line 150 and the final assignment: the head of the track that is current now.\<close>

definition append_next :: "player \<Rightarrow> frame list \<Rightarrow> frame list \<Rightarrow> error + (player \<times> frame list)" where
  "append_next p dataOut outdata =
     (case queuePos p of
        None \<Rightarrow> Inl TypeError
      | Some q \<Rightarrow>
          (case py_index (data p) q of
             Inl e \<Rightarrow> Inl e
           | Inr track \<Rightarrow>
               (case np_append (as_array dataOut)
                       (as_array (map (scale (volume p)) (py_slice track 0 (callPos p)))) of
                  Inl e \<Rightarrow> Inl e
                | Inr arr \<Rightarrow>
                    (case assign_all outdata arr of
                       Inl e \<Rightarrow> Inl e
                     | Inr out \<Rightarrow> Inr (p, out)))))"

text \<open>\<open>writeToStream p outdata\<close>: the player and the buffer after the call; the frames
  that \<open>outdata\<close> held before are only read for their number.\<close>

definition writeToStream :: "player \<Rightarrow> frame list \<Rightarrow> error + (player \<times> frame list)" where
  "writeToStream p outdata =
     (if \<not> playing p then Inr (p, replicate (length outdata) (0, 0))
      else
        let l = int (length outdata) in
        case queuePos p of
          None \<Rightarrow> Inl TypeError
        | Some q \<Rightarrow>
            (case py_index (data p) q of
               Inl e \<Rightarrow> Inl e
             | Inr track \<Rightarrow>
                 let dataOut = map (scale (volume p))
                                   (py_slice track (callPos p) (callPos p + l));
                     p1 = p\<lparr>callPos := callPos p + l\<rparr>
                 in if callPos p1 \<ge> int (length track) then
                      (case track_over (p1\<lparr>callPos := l - int (length dataOut)\<rparr>)
                                       q dataOut outdata of
                         Inl e \<Rightarrow> Inl e
                       | Inr (Returned p2 out) \<Rightarrow> Inr (p2, out)
                       | Inr (Goes_on p2) \<Rightarrow> append_next p2 dataOut outdata)
                    else
                      (case assign_all outdata (as_array dataOut) of
                         Inl e \<Rightarrow> Inl e
                       | Inr out \<Rightarrow> Inr (p1, out))))"

subsection \<open>Editing the queue\<close>

text \<open>\<^verbatim>\<open>self.queuePos.value\<close> (lines 316, 483, 496 and 500): \<open>queuePos\<close> holds an int or
  \<^verbatim>\<open>None\<close>, and neither has an attribute \<^verbatim>\<open>value\<close>, so the lookup raises.\<close>

definition queuePos_value :: "player \<Rightarrow> error + int" where
  "queuePos_value p = Inl AttributeError"

text \<open>\<^verbatim>\<open>xs.insert(i, v)\<close>: the position is clamped like a slice bound.\<close>

definition py_insert :: "'a list \<Rightarrow> int \<Rightarrow> 'a \<Rightarrow> 'a list" where
  "py_insert xs i v =
     (let k = py_bound (int (length xs)) i in take k xs @ [v] @ drop k xs)"

text \<open>Modelled from the spec: \<^verbatim>\<open>L.reorder\<close> belongs to LFLib and is not under src/; the
  source calls it to "apply the new order to all lists", so that the entry at index \<open>k\<close>
  becomes the entry the order names at \<open>k\<close>.\<close>

definition reorder :: "'a list \<Rightarrow> int list \<Rightarrow> 'a list" where
  "reorder xs order = map (\<lambda>i. xs ! nat i) order"

text \<open>\<open>shuffle\<close>: the permutation \<^verbatim>\<open>random.shuffle\<close> picks is the parameter \<open>rnd\<close>.\<close>

definition shuffle :: "(int list \<Rightarrow> int list) \<Rightarrow> player \<Rightarrow> bool \<Rightarrow> error + player" where
  "shuffle rnd p keepPos =
     (let order = map int [0 ..< length (sources p)] in
      case (if keepPos then
              (case queuePos_value p of Inl e \<Rightarrow> Inl e | Inr v \<Rightarrow>
              (case py_pop order v of Inl e \<Rightarrow> Inl e | Inr popped \<Rightarrow>
              (case queuePos_value p of Inl e \<Rightarrow> Inl e | Inr w \<Rightarrow>
              (case queuePos_value p of Inl e \<Rightarrow> Inl e | Inr x \<Rightarrow>
                 Inr (py_insert (rnd popped) w x)))))
            else Inr (rnd order)) of
        Inl e \<Rightarrow> Inl e
      | Inr shuffled \<Rightarrow>
          Inr (p\<lparr>sources := reorder (sources p) shuffled,
                 loops := reorder (loops p) shuffled,
                 data := reorder (data p) shuffled\<rparr>))"

text \<open>\<open>dequeue\<close>, with the argument as the caller passed it (the default is the string
  \<^verbatim>\<open>"current"\<close>).\<close>

definition dequeue :: "player \<Rightarrow> pyval \<Rightarrow> error + player" where
  "dequeue p position0 =
     (if length (sources p) = 0 then Inr (pln p QueueAlreadyEmpty)
      else
        case (if position0 = PStr ''current''
              then (case queuePos_value p of Inl e \<Rightarrow> Inl e | Inr v \<Rightarrow> Inr (PInt v))
              else Inr position0) of
          Inl e \<Rightarrow> Inl e
        | Inr (PInt i) \<Rightarrow>
             if i < 0 \<or> i \<ge> int (length (sources p)) then Inr (pln p PositionOutOfRange)
             else
               (case py_pop (sources p) i of Inl e \<Rightarrow> Inl e | Inr ss \<Rightarrow>
               (case py_pop (loops p) i of Inl e \<Rightarrow> Inl e | Inr ls \<Rightarrow>
               (case py_pop (data p) i of Inl e \<Rightarrow> Inl e | Inr ds \<Rightarrow>
                  let p1 = p\<lparr>sources := ss, loops := ls, data := ds\<rparr>;
                      goNext = (queuePos p1 = Some i)
                  in (case queuePos p1 of
                        None \<Rightarrow> Inl TypeError
                      | Some q \<Rightarrow>
                          let p2 = (if q \<ge> i then p1\<lparr>queuePos := Some (q - 1)\<rparr> else p1);
                              p3 = (if length (sources p2) = 0
                                    then (stop p2)\<lparr>queuePos := None\<rparr> else p2)
                          in if goNext then nextTrack p3 else Inr p3))))
        | Inr _ \<Rightarrow> Inr (pln p PositionNotInteger))"

subsection \<open>Looping\<close>

definition loopTrack :: "player \<Rightarrow> pyval \<Rightarrow> pyval \<Rightarrow> error + player" where
  "loopTrack p track lps =
     (case lps of
        PInt n \<Rightarrow>
          (let t = (if track = PNone
                    then (case queuePos p of None \<Rightarrow> PNone | Some q \<Rightarrow> PInt q)
                    else track)
           in case t of
                PInt i \<Rightarrow>
                  (case py_store (loops p) i n of
                     Inl e \<Rightarrow> Inl e
                   | Inr ls \<Rightarrow> Inr (p\<lparr>loops := ls\<rparr>))
              | _ \<Rightarrow> Inl TypeError)
      | _ \<Rightarrow> Inr (pln p LoopNotInteger))"

definition loopQueue :: "player \<Rightarrow> pyval \<Rightarrow> player" where
  "loopQueue p lps =
     (case lps of
        PInt n \<Rightarrow> p\<lparr>queueLoops := n, queueLoopsRemaining := n\<rparr>
      | _ \<Rightarrow> pln p LoopNotInteger)"

subsection \<open>Seeking\<close>

text \<open>\<open>jumpTo\<close>: \<^verbatim>\<open>L.timeToSeconds\<close> belongs to LFLib and is not under src/; it is the
  parameter \<open>timeToSeconds\<close>.\<close>

definition jumpTo :: "(string \<Rightarrow> error + int) \<Rightarrow> player \<Rightarrow> pyval \<Rightarrow> error + player" where
  "jumpTo timeToSeconds p timepos =
     (case (case timepos of
              PInt n \<Rightarrow> Inr (Some (n * samplingrate p))
            | PStr s \<Rightarrow>
                (case timeToSeconds s of
                   Inl e \<Rightarrow> Inl e
                 | Inr secs \<Rightarrow> Inr (Some (secs * samplingrate p)))
            | _ \<Rightarrow> Inr None) of
        Inl e \<Rightarrow> Inl e
      | Inr None \<Rightarrow> Inr (pln p (TimeposInvalid timepos))
      | Inr (Some pos) \<Rightarrow>
          (case queuePos_value p of Inl e \<Rightarrow> Inl e | Inr v \<Rightarrow>
          (case py_index (data p) v of Inl e \<Rightarrow> Inl e | Inr track \<Rightarrow>
             if pos \<ge> int (length track) \<or> pos < 0
             then Inr (pln p (TimeposOutOfBounds timepos))
             else Inr (p\<lparr>callPos := pos\<rparr>))))"

subsection \<open>Volume\<close>

text \<open>Multiplying a step by a finite factor, as IEEE arithmetic does with infinities.\<close>

fun db_times :: "real \<Rightarrow> dbstep \<Rightarrow> dbstep" where
  "db_times c (Finite x) = Finite (c * x)"
| "db_times c MinusInf = (if c > 0 then MinusInf else if c < 0 then PlusInf else NaN)"
| "db_times c PlusInf = (if c > 0 then PlusInf else if c < 0 then MinusInf else NaN)"
| "db_times c NaN = NaN"

definition np_log10 :: "real \<Rightarrow> dbstep" where
  "np_log10 x = (if x = 0 then MinusInf else if x < 0 then NaN else Finite (log 10 x))"

text \<open>\<open>setVolume\<close>, for a volume that is a Python number, as the constructor and a call
  with pace 0 from Python numbers leave it: then dividing by a volume of zero raises. A fade
  step of the settings thread leaves a numpy float instead, whose division by zero gives inf or
  nan without raising; that case of the paced branch is outside this model.\<close>

definition setVolume :: "player \<Rightarrow> real \<Rightarrow> real \<Rightarrow> error + player" where
  "setVolume p vol pace =
     (let target = min (max vol 0) 1 in
      if pace = 0 then Inr (p\<lparr>volume := target\<rparr>)
      else
        let p1 = pln p GradualVolumeChange in
        if volume p1 = 0 then Inl ZeroDivisionError
        else
          let delta = db_times 20 (np_log10 (target / volume p1)) in
          Inr (p1\<lparr>volumeChange := Some (db_times (1 / pace) (db_times (settingDelay p1) delta)),
                  targetVolume := Some target\<rparr>))"

text \<open>
  \<^verbatim>\<open>pow(10, y)\<close> on Python floats: it raises OverflowError when the power rounds beyond
  the largest double, which is from \<open>2^1024 - 2^970\<close> on, and it is \<open>0.0\<close> when the power
  rounds to zero, which is up to \<open>2^-1075\<close>. In between, the result is the power itself: the
  rounding of a representable result is idealised.
\<close>

definition overflow_bound :: real where
  "overflow_bound = 2 ^ 1024 - 2 ^ 970"

definition underflow_bound :: real where
  "underflow_bound = 2 powr (- 1075)"

definition py_pow10 :: "real \<Rightarrow> error + real" where
  "py_pow10 y =
     (if overflow_bound \<le> 10 powr y then Inl OverflowError
      else if 10 powr y \<le> underflow_bound then Inr 0
      else Inr (10 powr y))"

definition setVolumeDB :: "player \<Rightarrow> real \<Rightarrow> real \<Rightarrow> error + player" where
  "setVolumeDB p vol pace =
     (case py_pow10 (vol / 20) of
        Inl e \<Rightarrow> Inl e
      | Inr target \<Rightarrow> setVolume p target pace)"

definition changeVolume :: "player \<Rightarrow> real \<Rightarrow> real \<Rightarrow> error + player" where
  "changeVolume p delta pace = setVolume p (volume p + delta) pace"

definition changeVolumeDB :: "player \<Rightarrow> real \<Rightarrow> real \<Rightarrow> error + player" where
  "changeVolumeDB p delta pace =
     (case py_pow10 (delta / 20) of
        Inl e \<Rightarrow> Inl e
      | Inr factor \<Rightarrow> setVolume p (volume p * factor) pace)"

text \<open>Modelled from the spec: the source has no \<open>getVolumeDB\<close>; the spec converts with
  \<open>absolute = 10^(dB/20)\<close>, so reading the volume back in decibels is the inverse.\<close>

definition getVolumeDB :: "player \<Rightarrow> real" where
  "getVolumeDB p = 20 * log 10 (volume p)"

subsection \<open>Loading a track\<close>

text \<open>What the decoder reports of a file: the frame count and the sampling rate of its header,
  and the samples \<^verbatim>\<open>sf.blocks\<close> yields: scalars for a mono file
  (\<^verbatim>\<open>f.channels == 1\<close>) and rows otherwise.\<close>

datatype audio = Mono "real list" | Rows "frame list"

record soundfile =
  frames :: int
  samplerate :: int
  content :: audio

text \<open>
  \<open>queueSingle\<close>. The collaborators are parameters: \<open>sf_open\<close> is \<^verbatim>\<open>sf.SoundFile\<close>
  (\<open>None\<close> when it raises \<^verbatim>\<open>LibsndfileError\<close>), \<open>available\<close> is
  \<^verbatim>\<open>psutil.virtual_memory().available\<close>, \<open>resample\<close> is \<^verbatim>\<open>sr.resample\<close> with
  \<^verbatim>\<open>"sinc_best"\<close>. The wait for a pending load ends when another thread clears
  \<open>loading\<close>; the state after it does not depend on how long it took. The result is the
  returned flag and the player; \<^verbatim>\<open>finally\<close> clears \<open>loading\<close> on every path.
\<close>

definition queueSingle ::
  "(string \<Rightarrow> soundfile option) \<Rightarrow> int \<Rightarrow> (frame list \<Rightarrow> real \<Rightarrow> frame list)
     \<Rightarrow> player \<Rightarrow> pyval \<Rightarrow> error + (bool \<times> player)" where
  "queueSingle sf_open available resample p source =
     (case source of
        PStr s \<Rightarrow>
          (let p1 = pln p (Loading s);
               p2 = (if loading p1 then pln p1 WaitingPendingLoad else p1);
               p3 = p2\<lparr>loading := True\<rparr>
           in case sf_open s of
                None \<Rightarrow> Inr (False, (pln p3 (NotAudioFile s))\<lparr>loading := False\<rparr>)
              | Some f \<Rightarrow>
                  if frames f * 4 * 8 > available - ramBuffer p3 then
                    Inr (False, (pln p3 FileTooLarge)\<lparr>loading := False\<rparr>)
                  else
                    (let d = (case content f of
                                Mono xs \<Rightarrow> map (\<lambda>sample. (sample, sample)) xs
                              | Rows fs \<Rightarrow> fs)
                     in if samplerate f = 0 then Inl ZeroDivisionError
                        else
                          let ratio = real_of_int (samplingrate p3) / real_of_int (samplerate f);
                              p4 = (if \<not> ratio = 1
                                    then pln (pln p3 (NonStandardRate s)) (Resampled s)
                                    else p3);
                              d1 = (if \<not> ratio = 1 then resample d ratio else d);
                              p5 = (if length (sources p4) = 0
                                    then p4\<lparr>queuePos := Some 0\<rparr> else p4);
                              p6 = p5\<lparr>sources := sources p5 @ [s],
                                      loops := loops p5 @ [1],
                                      data := data p5 @ [d1]\<rparr>
                          in Inr (True, (pln p6 (Loaded s))\<lparr>loading := False\<rparr>)))
      | _ \<Rightarrow> Inr (False, pln p PathNotString))"

subsection \<open>What one call reported\<close>

definition reported :: "player \<Rightarrow> player \<Rightarrow> report list" where
  "reported p p' = drop (length (printed p)) (printed p')"

subsection \<open>Example players\<close>

definition short_track :: "frame list" where
  "short_track = [(1, 1), (2, 2), (3, 3), (4, 4)]"

text \<open>One track of four frames, playing, two frames already rendered.\<close>

definition solo :: player where
  "solo = Player\<lparr>queuePos := Some 0, sources := [''a.wav''], loops := [1],
     data := [short_track], playing := True, callPos := 2\<rparr>"

definition buffer2 :: "frame list" where
  "buffer2 = [(9, 9), (9, 9)]"

definition buffer3 :: "frame list" where
  "buffer3 = [(9, 9), (9, 9), (9, 9)]"

text \<open>Three tracks, the second one playing.\<close>

definition trio :: player where
  "trio = Player\<lparr>queuePos := Some 1, sources := [''a.wav'', ''b.wav'', ''c.wav''],
     loops := [1, 2, 3], data := [short_track, [(5, 5), (8, 8)], [(6, 6), (7, 7)]],
     playing := True, callPos := 1\<rparr>"

text \<open>The same queue on its last track, each track to be played once, with 3 of 5 passes of
  the queue remaining.\<close>

definition encore :: player where
  "encore = trio\<lparr>queuePos := Some 2, loops := [1, 2, 1], queueLoops := 5,
     queueLoopsRemaining := 3\<rparr>"

text \<open>A track of five million frames, more than 113 seconds at 44100 Hz.\<close>

definition long_track :: "frame list" where
  "long_track = replicate 5000000 (0, 0)"

definition seeker :: player where
  "seeker = Player\<lparr>queuePos := Some 0, sources := [''song.wav''], loops := [1],
     data := [long_track], playing := True\<rparr>"

text \<open>A stand-in for \<^verbatim>\<open>L.timeToSeconds\<close> that knows the one timecode of the spec.\<close>

definition clock :: "string \<Rightarrow> error + int" where
  "clock s = (if s = ''1:30'' then Inr 90 else Inl ValueError)"

text \<open>A file of one frame at the rate of the stream.\<close>

definition tiny_file :: soundfile where
  "tiny_file = \<lparr>frames = 1, samplerate = 44100, content = Rows [(1, 1)]\<rparr>"

text \<open>Collaborators for the examples: a decoder that finds \<open>tiny_file\<close> under every
  path, one that finds no file, and a resampler that is never needed.\<close>

definition tiny_decoder :: "string \<Rightarrow> soundfile option" where
  "tiny_decoder s = Some tiny_file"

definition no_decoder :: "string \<Rightarrow> soundfile option" where
  "no_decoder s = None"

definition keep_rate :: "frame list \<Rightarrow> real \<Rightarrow> frame list" where
  "keep_rate d ratio = d"

section \<open>Properties\<close>

lemmas list_defs = py_index_def py_store_def py_pop_def py_bound_def py_slice_def py_insert_def

lemmas render_defs = writeToStream_def track_over_def append_next_def as_array_def np_zeros_def
  scale_def stop_def pln_def

subsection \<open>Slices and pops\<close>

lemma py_slice_nonneg:
  assumes "0 \<le> a" and "a \<le> b"
  shows "py_slice xs a b = take (nat (b - a)) (drop (nat a) xs)"
proof (cases "b \<le> int (length xs)")
  case True
  with assms have "nat b - nat a = nat (b - a)" by simp
  with True assms show ?thesis
    by (simp add: py_slice_def py_bound_def Let_def min_def)
next
  case False
  then have big: "int (length xs) < b" by simp
  show ?thesis
  proof (cases "a \<le> int (length xs)")
    case True
    with big assms have "length (drop (nat a) xs) \<le> nat (b - a)" by simp
    with True big assms show ?thesis
      by (simp add: py_slice_def py_bound_def Let_def min_def)
  next
    case False
    with big assms show ?thesis
      by (simp add: py_slice_def py_bound_def Let_def min_def)
  qed
qed

lemma py_pop_middle_of_three:
  assumes "length xs = 3"
  shows "py_pop xs 1 = Inr [xs ! 0, xs ! 2]"
proof -
  from assms obtain a b c where "xs = [a, b, c]"
    by (metis (no_types, opaque_lifting) length_0_conv length_Suc_conv numeral_3_eq_3)
  then show ?thesis by (simp add: py_pop_def)
qed

subsection \<open>Rendering inside a track\<close>

text \<open>A call that stays inside the current track writes the next frames of it, scaled by the
  volume, and moves \<open>callPos\<close> on by their number.\<close>

lemma writeToStream_inside:
  assumes "playing p" and "queuePos p = Some q" and "0 \<le> q" and "nat q < length (data p)"
    and "0 \<le> callPos p" and "outdata \<noteq> []"
    and "callPos p + int (length outdata) < int (length (data p ! nat q))"
  shows "writeToStream p outdata =
    Inr (p\<lparr>callPos := callPos p + int (length outdata)\<rparr>,
         map (scale (volume p)) (take (length outdata) (drop (nat (callPos p)) (data p ! nat q))))"
proof -
  let ?track = "data p ! nat q"
  let ?l = "length outdata"
  have idx: "py_index (data p) q = Inr ?track"
    using assms by (simp add: py_index_def)
  have sl: "py_slice ?track (callPos p) (callPos p + int ?l)
      = take ?l (drop (nat (callPos p)) ?track)"
    using assms by (simp add: py_slice_nonneg)
  have len: "length (take ?l (drop (nat (callPos p)) ?track)) = ?l"
    using assms by simp
  have ne: "take ?l (drop (nat (callPos p)) ?track) \<noteq> []"
    using len assms(6) by (metis length_0_conv)
  show ?thesis
    using assms(1,2,7) idx sl len ne
    by (simp add: writeToStream_def as_array_def Let_def)
qed

text \<open>While the player is not playing, a call writes silence and changes nothing.\<close>

lemma writeToStream_silent:
  assumes "\<not> playing p"
  shows "writeToStream p buf = Inr (p, replicate (length buf) (0, 0))"
  using assms by (simp add: writeToStream_def)

subsection \<open>Rendering across the end of a track\<close>

text \<open>What lines 124 to 148 decide, with the tail of the track in hand and the missing frames
  counted in \<open>callPos\<close>: either playback goes on at some position of the queue, or the queue
  has ended and the buffer is the tail followed by silence.\<close>

lemma track_over_outcome:
  assumes "queuePos p = Some q" and "0 \<le> q" and "q < int (length (sources p))"
    and "length (loops p) = length (sources p)"
    and "dataOut \<noteq> []" and "0 \<le> callPos p"
    and "length dataOut + nat (callPos p) = length outdata"
  shows "(\<exists>p2 q2. track_over p q dataOut outdata = Inr (Goes_on p2)
            \<and> data p2 = data p \<and> volume p2 = volume p \<and> callPos p2 = callPos p
            \<and> queuePos p2 = Some q2 \<and> 0 \<le> q2 \<and> q2 < int (length (sources p)))
       \<or> (\<exists>p'. track_over p q dataOut outdata
              = Inr (Returned p' (dataOut @ replicate (nat (callPos p)) (0, 0)))
            \<and> data p' = data p \<and> callPos p' = 0 \<and> queuePos p' = Some 0 \<and> \<not> playing p')"
proof -
  have lq: "py_index (loops p) q = Inr (loops p ! nat q)"
    using assms by (simp add: py_index_def)
  have st: "py_store (loops p) q v = Inr ((loops p)[nat q := v])" for v
    using assms by (simp add: py_store_def)
  have pos: "sources p \<noteq> []"
    using assms(2,3) by auto
  show ?thesis
    using assms lq st pos
    by (simp add: track_over_def np_zeros_def as_array_def stop_def pln_def Let_def)
qed

text \<open>Line 150 with at least one frame missing and a current track that has that many.\<close>

lemma append_next_head:
  assumes "queuePos p = Some q" and "0 \<le> q" and "nat q < length (data p)"
    and "dataOut \<noteq> []" and "0 < callPos p"
    and "callPos p \<le> int (length (data p ! nat q))"
    and "length dataOut + nat (callPos p) = length outdata"
  shows "append_next p dataOut outdata =
     Inr (p, dataOut @ map (scale (volume p)) (take (nat (callPos p)) (data p ! nat q)))"
proof -
  let ?track = "data p ! nat q"
  have idx: "py_index (data p) q = Inr ?track"
    using assms by (simp add: py_index_def)
  have sl: "py_slice ?track 0 (callPos p) = take (nat (callPos p)) ?track"
    using assms py_slice_nonneg [of 0 "callPos p" ?track] by simp
  have ne: "take (nat (callPos p)) ?track \<noteq> []"
    using assms by auto
  have len: "length dataOut + min (length ?track) (nat (callPos p)) = length outdata"
    using assms by (auto simp: min_def)
  show ?thesis
    using assms(1,4) idx sl ne len
    by (simp add: append_next_def as_array_def)
qed

text \<open>
  Away from the exact end of the current track the callback does what C1 asks: with every
  queued track at least as long as the buffer, a call writes as many frames as the buffer
  has and leaves \<open>callPos\<close> inside the track that is current afterwards.
\<close>

lemma writeToStream_frames:
  assumes "length (loops p) = length (sources p)" and "length (data p) = length (sources p)"
    and "playing p" and "queuePos p = Some q" and "0 \<le> q" and "q < int (length (sources p))"
    and "0 \<le> callPos p" and "callPos p < int (length (data p ! nat q))"
    and "\<forall>t \<in> set (data p). length outdata \<le> length t"
    and "callPos p + int (length outdata) \<noteq> int (length (data p ! nat q))"
    and "outdata \<noteq> []"
  shows "\<exists>p' out q'. writeToStream p outdata = Inr (p', out)
     \<and> length out = length outdata \<and> data p' = data p
     \<and> queuePos p' = Some q' \<and> 0 \<le> q' \<and> q' < int (length (data p))
     \<and> 0 \<le> callPos p' \<and> callPos p' < int (length (data p ! nat q'))"
proof (cases "callPos p + int (length outdata) < int (length (data p ! nat q))")
  case True
  with assms show ?thesis
    using writeToStream_inside [of p q outdata] by simp
next
  case False
  let ?track = "data p ! nat q"
  let ?l = "length outdata"
  let ?dataOut = "map (scale (volume p)) (drop (nat (callPos p)) ?track)"
  let ?p1 = "p\<lparr>callPos := int ?l - int (length ?dataOut)\<rparr>"
  from False assms(10) have past: "int (length ?track) < callPos p + int ?l" by simp
  have inq: "nat q < length (data p)" using assms by simp
  have idx: "py_index (data p) q = Inr ?track"
    using assms by (simp add: py_index_def)
  have sl: "py_slice ?track (callPos p) (callPos p + int ?l) = drop (nat (callPos p)) ?track"
    using assms past by (simp add: py_slice_nonneg)
  have ne: "?dataOut \<noteq> []" using assms by simp
  have r0: "0 < callPos ?p1" and r1: "callPos ?p1 < int ?l"
    and r2: "length ?dataOut + nat (callPos ?p1) = ?l"
    using assms past by simp_all
  have long: "int ?l \<le> int (length (data p ! nat j))" if "0 \<le> j" "j < int (length (data p))" for j
    using assms(9) that by simp
  have start: "writeToStream p outdata = (case r of Returned p2 out \<Rightarrow> Inr (p2, out)
       | Goes_on p2 \<Rightarrow> append_next p2 ?dataOut outdata)"
    if "track_over ?p1 q ?dataOut outdata = Inr r" for r
    using assms(3,4) past idx sl that
    by (simp add: writeToStream_def Let_def split: over.splits del: length_map length_drop)
  from track_over_outcome [of ?p1 q ?dataOut outdata] assms(1,4,5,6) ne r0 r2
  consider (goes) p2 q2 where "track_over ?p1 q ?dataOut outdata = Inr (Goes_on p2)"
      "data p2 = data p" "volume p2 = volume p" "callPos p2 = callPos ?p1"
      "queuePos p2 = Some q2" "0 \<le> q2" "q2 < int (length (sources p))"
    | (returned) p' where "track_over ?p1 q ?dataOut outdata
        = Inr (Returned p' (?dataOut @ replicate (nat (callPos ?p1)) (0, 0)))"
      "data p' = data p" "callPos p' = 0" "queuePos p' = Some 0" "\<not> playing p'"
    by (simp del: length_map length_drop) blast
  then show ?thesis
  proof cases
    case goes
    have q2: "q2 < int (length (data p))"
      using goes(7) assms(2) by simp
    then have q2n: "nat q2 < length (data p)"
      using goes(6) by simp
    have cp: "callPos p2 < int ?l" "0 < callPos p2"
      using goes(4) r0 r1 by (simp_all only:)
    have fits: "callPos p2 < int (length (data p ! nat q2))"
      using long [OF goes(6) q2] cp(1) by linarith
    have r2': "length ?dataOut + nat (callPos p2) = ?l"
      using goes(4) r2 by (simp only:)
    let ?head = "map (scale (volume p2)) (take (nat (callPos p2)) (data p ! nat q2))"
    have "append_next p2 ?dataOut outdata = Inr (p2, ?dataOut @ ?head)"
      using append_next_head [of p2 q2 ?dataOut outdata] goes(2,5,6) q2n ne cp(2) fits r2'
      by (simp del: length_map length_drop)
    then have run: "writeToStream p outdata = Inr (p2, ?dataOut @ ?head)"
      using start [OF goes(1)] by (simp del: length_map length_drop)
    have "length ?head = nat (callPos p2)"
      using fits cp(2) by simp
    then have "length (?dataOut @ ?head) = ?l"
      using r2' by (simp del: length_map length_drop)
    with run goes(2,5,6) q2 cp(2) fits show ?thesis
      by (simp del: length_map length_drop length_append)
  next
    case returned
    let ?out = "?dataOut @ replicate (nat (callPos ?p1)) (0, 0)"
    have run: "writeToStream p outdata = Inr (p', ?out)"
      using start [OF returned(1)] by (simp del: length_map length_drop)
    have first: "(0::int) < int (length (data p))"
      using inq by auto
    have "int ?l \<le> int (length (data p ! nat 0))"
      using long [of 0] first by simp
    moreover have "0 < ?l"
      using assms(11) by simp
    ultimately have nonempty: "(0::int) < int (length (data p ! nat 0))"
      by linarith
    have "length ?out = ?l"
      using r2 by (simp del: length_map length_drop)
    with run returned(2,3,4) first nonempty show ?thesis
      by (simp del: length_map length_drop length_append)
  qed
qed

text \<open>
  C1 (every render call writes exactly L frames and leaves \<open>callPos\<close> inside the current
  track): the claim fails where the track ends exactly with the buffer and playback goes on.
  The track \<open>short_track\<close> has four frames, at least as many as the two requested; the call
  starts at frame 2 with one more play of the track owed. The tail of the track fills the
  buffer, line 150 appends the empty list to it with \<^verbatim>\<open>np.append(dataOut, [], axis=0)\<close>,
  numpy refuses to concatenate a two-dimensional with a one-dimensional array, and the call
  raises ValueError with nothing written.
\<close>

theorem writeToStream_exact_end_raises:
  "writeToStream (solo\<lparr>loops := [2]\<rparr>) buffer2 = Inl ValueError"
  by (simp add: solo_def Player_def short_track_def buffer2_def render_defs list_defs Let_def)

subsection \<open>A track that loops forever\<close>

text \<open>
  A call that passes the end of a track whose loop counter is 0, by at least one frame and by
  no more than the track holds, goes on with the head of the same track: the counter,
  \<open>endTrack\<close> and \<open>queuePos\<close> stay as they are.
\<close>

lemma writeToStream_loops_forever:
  assumes "playing p" and "queuePos p = Some q" and "0 \<le> q"
    and "nat q < length (data p)" and "nat q < length (loops p)"
    and "loops p ! nat q = 0"
    and "0 \<le> callPos p" and "callPos p < int (length (data p ! nat q))"
    and "int (length (data p ! nat q)) < callPos p + int (length outdata)"
    and "length outdata \<le> length (data p ! nat q)"
  shows "writeToStream p outdata =
     Inr (p\<lparr>callPos := callPos p + int (length outdata) - int (length (data p ! nat q))\<rparr>,
          map (scale (volume p)) (drop (nat (callPos p)) (data p ! nat q))
          @ map (scale (volume p))
              (take (nat (callPos p + int (length outdata) - int (length (data p ! nat q))))
                    (data p ! nat q)))"
proof -
  let ?track = "data p ! nat q"
  let ?l = "length outdata"
  let ?dataOut = "map (scale (volume p)) (drop (nat (callPos p)) ?track)"
  let ?rest = "callPos p + int ?l - int (length ?track)"
  let ?p1 = "p\<lparr>callPos := ?rest\<rparr>"
  have idx: "py_index (data p) q = Inr ?track"
    using assms by (simp add: py_index_def)
  have lq: "py_index (loops p) q = Inr 0"
    using assms by (simp add: py_index_def)
  have sl: "py_slice ?track (callPos p) (callPos p + int ?l) = drop (nat (callPos p)) ?track"
    using assms by (simp add: py_slice_nonneg)
  have ne: "?dataOut \<noteq> []" using assms by simp
  have missing: "int ?l - int (length ?dataOut) = ?rest"
    using assms by simp
  have over: "track_over ?p1 q ?dataOut outdata = Inr (Goes_on ?p1)"
    using lq by (simp add: track_over_def)
  have fill: "length ?dataOut + nat ?rest = ?l"
    using assms(7,8,9) by (simp only: length_map length_drop)
  have head: "append_next ?p1 ?dataOut outdata =
      Inr (?p1, ?dataOut @ map (scale (volume p)) (take (nat ?rest) ?track))"
    using append_next_head [of ?p1 q ?dataOut outdata] assms(2,3,4,8,9,10) ne fill
    by (simp del: length_map length_drop)
  show ?thesis
    using assms(1,2,9) idx sl over head
    by (simp add: writeToStream_def Let_def missing del: length_map length_drop)
qed

text \<open>
  C10 (at the end of a track whose loop counter is 0 the rest of the buffer is refilled from
  frame 0 of the same track): the claim fails where the track ends exactly with the buffer.
  With the counter at 0 and two of four frames left for a buffer of two, line 150 appends the
  empty list and the call raises ValueError instead of returning a buffer.
\<close>

theorem writeToStream_infinite_loop_exact_end_raises:
  "writeToStream (solo\<lparr>loops := [0]\<rparr>) buffer2 = Inl ValueError"
  by (simp add: solo_def Player_def short_track_def buffer2_def render_defs list_defs Let_def)

subsection \<open>The end of the queue\<close>

text \<open>
  C2, as the claim states it, fails: the call below reaches the end of the last queued track
  with \<open>queueLoopsRemaining = 1\<close>, but the track has a second play owed
  (\<open>loops = [2]\<close>), so the callback decrements that counter, fills the buffer from the start
  of the track and goes on playing with \<open>endQueue\<close> unset.
\<close>

theorem writeToStream_last_track_repeats:
  "writeToStream (solo\<lparr>loops := [2]\<rparr>) buffer3 =
     Inr (solo\<lparr>loops := [1], callPos := 1\<rparr>, [(3, 3), (4, 4), (1, 1)])"
  by (simp add: solo_def Player_def short_track_def buffer3_def render_defs list_defs Let_def)

text \<open>
  C2, amended: a render call that reaches the end of the last queued track while that track's
  loop counter is 1 and \<open>queueLoopsRemaining\<close> is 1 sets \<open>endQueue\<close>, writes the tail of the
  track followed by zero frames up to the length of the buffer, sets \<open>playing\<close> to false and
  resets \<open>queueLoopsRemaining\<close> to \<open>queueLoops\<close>; every later call on the player it leaves
  writes silence and leaves it as it is.
\<close>

theorem writeToStream_queue_end:
  assumes "playing p" and "queuePos p = Some q" and "0 \<le> q"
    and "q + 1 = int (length (sources p))"
    and "nat q < length (data p)" and "nat q < length (loops p)"
    and "loops p ! nat q = 1" and "queueLoopsRemaining p = 1"
    and "0 \<le> callPos p" and "callPos p < int (length (data p ! nat q))"
    and "int (length (data p ! nat q)) \<le> callPos p + int (length outdata)"
  shows "\<exists>p' out. writeToStream p outdata = Inr (p', out)
     \<and> endQueue p' \<and> \<not> playing p' \<and> queueLoopsRemaining p' = queueLoops p
     \<and> out = map (scale (volume p)) (drop (nat (callPos p)) (data p ! nat q))
             @ replicate (length outdata - (length (data p ! nat q) - nat (callPos p))) (0, 0)
     \<and> length out = length outdata
     \<and> (\<forall>buf. writeToStream p' buf = Inr (p', replicate (length buf) (0, 0)))"
proof -
  let ?track = "data p ! nat q"
  let ?l = "length outdata"
  let ?tail = "drop (nat (callPos p)) ?track"
  let ?dataOut = "map (scale (volume p)) ?tail"
  let ?rest = "?l - (length ?track - nat (callPos p))"
  let ?out = "?dataOut @ replicate ?rest (0, 0)"
  let ?p' = "p\<lparr>callPos := 0, endTrack := True, queuePos := Some 0, endQueue := True,
    playing := False, queueLoopsRemaining := queueLoops p\<rparr>"
  have idx: "py_index (data p) q = Inr ?track"
    using assms by (simp add: py_index_def)
  have lq: "py_index (loops p) q = Inr 1"
    using assms by (simp add: py_index_def)
  have sl: "py_slice ?track (callPos p) (callPos p + int ?l) = ?tail"
    using assms by (simp add: py_slice_nonneg)
  have ne: "?dataOut \<noteq> []"
    using assms by simp
  have missing: "int ?l - int (length ?dataOut) = int ?rest"
    using assms by simp
  have len: "length ?out = ?l"
    using assms by simp
  have over: "track_over (p\<lparr>callPos := int ?l - int (length ?dataOut)\<rparr>) q ?dataOut outdata
      = Inr (Returned ?p' ?out)"
    using assms(4,8) lq ne len
    by (simp add: track_over_def missing np_zeros_def as_array_def stop_def Let_def
        del: length_map length_drop length_append length_replicate)
  have "writeToStream p outdata = Inr (?p', ?out)"
    using assms(1,2,11) idx sl over
    by (simp add: writeToStream_def Let_def del: length_map length_drop)
  moreover have "writeToStream ?p' buf = Inr (?p', replicate (length buf) (0, 0))" for buf
    by (simp add: writeToStream_def)
  ultimately show ?thesis
    using len by simp
qed

text \<open>C2, amended, at \<open>solo\<close>: two frames of the track are left for a buffer of three.\<close>

theorem writeToStream_queue_end_witness:
  "playing solo \<and> queuePos solo = Some 0 \<and> (0::int) \<le> 0
   \<and> 0 + 1 = int (length (sources solo))
   \<and> nat 0 < length (data solo) \<and> nat 0 < length (loops solo)
   \<and> loops solo ! nat 0 = 1 \<and> queueLoopsRemaining solo = 1
   \<and> 0 \<le> callPos solo \<and> callPos solo < int (length (data solo ! nat 0))
   \<and> int (length (data solo ! nat 0)) \<le> callPos solo + int (length buffer3)
   \<and> (\<exists>p' out. writeToStream solo buffer3 = Inr (p', out)
        \<and> endQueue p' \<and> \<not> playing p' \<and> queueLoopsRemaining p' = 1
        \<and> out = [(3, 3), (4, 4), (0, 0)]
        \<and> (\<forall>buf. writeToStream p' buf = Inr (p', replicate (length buf) (0, 0))))"
proof -
  have h: "playing solo" "queuePos solo = Some 0" "(0::int) \<le> 0"
    "0 + 1 = int (length (sources solo))"
    "nat 0 < length (data solo)" "nat 0 < length (loops solo)"
    "loops solo ! nat 0 = 1" "queueLoopsRemaining solo = 1"
    "0 \<le> callPos solo" "callPos solo < int (length (data solo ! nat 0))"
    "int (length (data solo ! nat 0)) \<le> callPos solo + int (length buffer3)"
    by (simp_all add: solo_def Player_def short_track_def buffer3_def)
  from writeToStream_queue_end [OF h] obtain p' out where r:
    "writeToStream solo buffer3 = Inr (p', out)"
    "endQueue p'" "\<not> playing p'" "queueLoopsRemaining p' = queueLoops solo"
    "out = map (scale (volume solo)) (drop (nat (callPos solo)) (data solo ! nat 0))
       @ replicate (length buffer3 - (length (data solo ! nat 0) - nat (callPos solo))) (0, 0)"
    "\<forall>buf. writeToStream p' buf = Inr (p', replicate (length buf) (0, 0))"
    by blast
  have "queueLoops solo = 1"
    by (simp add: solo_def Player_def)
  moreover have "map (scale (volume solo)) (drop (nat (callPos solo)) (data solo ! nat 0))
       @ replicate (length buffer3 - (length (data solo ! nat 0) - nat (callPos solo))) (0, 0)
     = [(3, 3), (4, 4), (0, 0)]"
    by (simp add: solo_def Player_def short_track_def buffer3_def scale_def)
  ultimately have "writeToStream solo buffer3 = Inr (p', out)
        \<and> endQueue p' \<and> \<not> playing p' \<and> queueLoopsRemaining p' = 1
        \<and> out = [(3, 3), (4, 4), (0, 0)]
        \<and> (\<forall>buf. writeToStream p' buf = Inr (p', replicate (length buf) (0, 0)))"
    using r by simp
  with h show ?thesis by blast
qed

subsection \<open>Removing the current track\<close>

text \<open>
  C3: in a queue of three tracks with the track at position 1 current, \<open>dequeue(1)\<close>
  removes that track, leaves \<open>queuePos\<close> at 1, where the track that was at index 2 now is
  (its source, loop counter and data), and resets \<open>callPos\<close> to 0; a render call that
  follows, shorter than that track, writes its first frames.
\<close>

theorem dequeue_current_of_three:
  assumes "length (sources p) = 3" and "length (loops p) = 3" and "length (data p) = 3"
    and "queuePos p = Some 1"
  shows "\<exists>p'. dequeue p (PInt 1) = Inr p'
     \<and> queuePos p' = Some 1 \<and> callPos p' = 0
     \<and> sources p' = [sources p ! 0, sources p ! 2]
     \<and> loops p' = [loops p ! 0, loops p ! 2]
     \<and> data p' = [data p ! 0, data p ! 2]
     \<and> playing p' = playing p
     \<and> (\<forall>buf. playing p \<and> buf \<noteq> [] \<and> length buf < length (data p ! 2) \<longrightarrow>
          writeToStream p' buf =
            Inr (p'\<lparr>callPos := int (length buf)\<rparr>,
                 map (scale (volume p)) (take (length buf) (data p ! 2))))"
proof -
  let ?p' = "p\<lparr>sources := [sources p ! 0, sources p ! 2], loops := [loops p ! 0, loops p ! 2],
    data := [data p ! 0, data p ! 2], queuePos := Some 1, callPos := 0,
    printed := printed p @ [NextTrack]\<rparr>"
  have run: "dequeue p (PInt 1) = Inr ?p'"
    using assms
    by (simp add: dequeue_def py_pop_middle_of_three nextTrack_def pln_def Let_def)
  have render: "writeToStream ?p' buf =
      Inr (?p'\<lparr>callPos := int (length buf)\<rparr>,
           map (scale (volume p)) (take (length buf) (data p ! 2)))"
    if "playing p" "buf \<noteq> []" "length buf < length (data p ! 2)" for buf
    using writeToStream_inside [of ?p' 1 buf] that by simp
  show ?thesis
    using run render by simp
qed

text \<open>C3 at the player \<open>trio\<close>: the track \<^verbatim>\<open>b.wav\<close> goes, \<^verbatim>\<open>c.wav\<close> is current.\<close>

theorem dequeue_current_of_three_witness:
  "length (sources trio) = 3 \<and> length (loops trio) = 3 \<and> length (data trio) = 3
   \<and> queuePos trio = Some 1
   \<and> (\<exists>p'. dequeue trio (PInt 1) = Inr p'
        \<and> queuePos p' = Some 1 \<and> callPos p' = 0
        \<and> sources p' = [''a.wav'', ''c.wav'']
        \<and> loops p' = [1, 3]
        \<and> data p' = [short_track, [(6, 6), (7, 7)]]
        \<and> playing p')"
proof -
  have h: "length (sources trio) = 3" "length (loops trio) = 3" "length (data trio) = 3"
    "queuePos trio = Some 1"
    by (simp_all add: trio_def Player_def)
  from dequeue_current_of_three [OF h] obtain p' where
    "dequeue trio (PInt 1) = Inr p'" "queuePos p' = Some 1" "callPos p' = 0"
    "sources p' = [sources trio ! 0, sources trio ! 2]"
    "loops p' = [loops trio ! 0, loops trio ! 2]"
    "data p' = [data trio ! 0, data trio ! 2]"
    "playing p' = playing trio"
    by blast
  then have "dequeue trio (PInt 1) = Inr p' \<and> queuePos p' = Some 1 \<and> callPos p' = 0
        \<and> sources p' = [''a.wav'', ''c.wav''] \<and> loops p' = [1, 3]
        \<and> data p' = [short_track, [(6, 6), (7, 7)]] \<and> playing p'"
    by (simp add: trio_def Player_def)
  with h show ?thesis by blast
qed

subsection \<open>Skipping to the next track\<close>

text \<open>
  What \<open>nextTrack\<close> computes on a non-empty queue: \<open>callPos\<close> is reset to 0 and
  \<open>queuePos\<close> advances by one modulo the length of the queue; playback stops, and
  \<open>queueLoopsRemaining\<close> is reset to \<open>queueLoops\<close>, exactly when the current index is
  the last one and \<open>queueLoopsRemaining\<close> is not 0 (the guard of line 357).
\<close>

lemma nextTrack_advances:
  assumes "sources p \<noteq> []" and "queuePos p = Some q"
  shows "\<exists>p'. nextTrack p = Inr p'
     \<and> callPos p' = 0
     \<and> queuePos p' = Some ((q + 1) mod int (length (sources p)))
     \<and> (playing p' \<longleftrightarrow>
          playing p \<and> \<not> (q = int (length (sources p)) - 1 \<and> queueLoopsRemaining p \<noteq> 0))
     \<and> queueLoopsRemaining p' =
          (if q = int (length (sources p)) - 1 \<and> queueLoopsRemaining p \<noteq> 0
           then queueLoops p else queueLoopsRemaining p)"
  using assms by (simp add: nextTrack_def stop_def pln_def Let_def)

text \<open>
  C4 (\<open>nextTrack\<close> stops playback if and only if the current index is the last one and no
  repeats of the queue are owed): the claim fails on the player \<open>encore\<close>, which is on its
  last track with 3 of 5 passes of the queue remaining, two repeats owed. \<open>nextTrack\<close>
  stops the player and resets the counter to 5. The render callback, reaching the end of the
  same track in the same state, counts the pass (3 becomes 2), wraps to the first track and
  goes on playing: the two paths disagree on whether repeats are owed.
\<close>

theorem nextTrack_stops_with_repeats_owed:
  "nextTrack encore =
     Inr (encore\<lparr>callPos := 0, playing := False, queueLoopsRemaining := 5,
            queuePos := Some 0, printed := [NextTrack]\<rparr>)
   \<and> writeToStream encore buffer2 =
     Inr (encore\<lparr>callPos := 1, endTrack := True, queuePos := Some 0,
            queueLoopsRemaining := 2, printed := [NextTrack]\<rparr>,
          [(7, 7), (1, 1)])"
  by (simp add: nextTrack_def encore_def trio_def Player_def short_track_def buffer2_def
      render_defs list_defs Let_def)

subsection \<open>Operations that read \<^verbatim>\<open>queuePos.value\<close>\<close>

text \<open>
  C7 (\<open>jumpTo("1:30")\<close> at 44100 Hz sets \<open>callPos\<close> to 90 * 44100, and a position out of
  bounds is rejected and reported): on a track of five million frames, longer than the
  3969000 the timecode asks for, \<open>jumpTo\<close> raises AttributeError at the bounds check of
  line 483 and \<open>callPos\<close> is never set; a position beyond the track raises the same way
  instead of being reported.
\<close>

theorem jumpTo_raises:
  "jumpTo clock seeker (PStr ''1:30'') = Inl AttributeError
   \<and> jumpTo clock seeker (PInt 200) = Inl AttributeError"
  by (simp add: jumpTo_def queuePos_value_def clock_def)

text \<open>
  C8 (\<open>shuffle(keepPos=true)\<close> keeps the current track in place and permutes the others):
  with \<open>keepPos\<close> the call raises AttributeError at line 496, on every player and whatever
  the random permutation, before any list is reordered.
\<close>

theorem shuffle_keepPos_raises:
  "shuffle rnd p True = Inl AttributeError"
  by (simp add: shuffle_def queuePos_value_def)

subsection \<open>Arguments that are checked\<close>

text \<open>
  The default call \<open>dequeue()\<close> on a queue of one track: line 316 reads
  \<^verbatim>\<open>self.queuePos.value\<close> and the call raises AttributeError.
\<close>

lemma dequeue_default_raises:
  "dequeue solo (PStr ''current'') = Inl AttributeError"
  by (simp add: dequeue_def solo_def Player_def queuePos_value_def)

text \<open>
  C9, as the claim states it (an invalid argument of a public operation is reported and never
  raises), fails: \<open>loopTrack\<close> checks the type of \<open>loops\<close> only and stores at \<open>track\<close>
  unchecked, so a track index outside the queue raises IndexError.
\<close>

theorem loopTrack_out_of_range_raises:
  "loopTrack solo (PInt 5) (PInt 2) = Inl IndexError"
  by (simp add: loopTrack_def solo_def Player_def py_store_def)

text \<open>
  C9, amended: the checks the operations make come before any mutation, and a failed check
  is reported and leaves the player as it was, apart from the printed report, without an
  exception. They are: for \<open>dequeue\<close> with an explicit position, that it is an integer
  index of the queue; for \<open>loopTrack\<close> and \<open>loopQueue\<close>, that \<open>loops\<close> is an integer;
  for \<open>jumpTo\<close>, that the timecode is an integer or a string; for \<open>queueSingle\<close>, that
  the source is a string.
\<close>

theorem invalid_arguments_reported:
  assumes "position \<noteq> PStr ''current''"
    and "\<forall>i. position = PInt i \<longrightarrow> i < 0 \<or> int (length (sources p)) \<le> i"
    and "\<forall>n. lps \<noteq> PInt n"
    and "\<forall>n. timepos \<noteq> PInt n" and "\<forall>s. timepos \<noteq> PStr s"
    and "\<forall>s. source \<noteq> PStr s"
  shows "(\<exists>r. dequeue p position = Inr (pln p r))
     \<and> loopTrack p track lps = Inr (pln p LoopNotInteger)
     \<and> loopQueue p lps = pln p LoopNotInteger
     \<and> jumpTo timeToSeconds p timepos = Inr (pln p (TimeposInvalid timepos))
     \<and> queueSingle sf_open available resample p source = Inr (False, pln p PathNotString)"
proof -
  have "\<exists>r. dequeue p position = Inr (pln p r)"
    using assms(1,2) by (cases position) (auto simp: dequeue_def)
  moreover have "loopTrack p track lps = Inr (pln p LoopNotInteger)"
    using assms(3) by (cases lps) (simp_all add: loopTrack_def)
  moreover have "loopQueue p lps = pln p LoopNotInteger"
    using assms(3) by (cases lps) (simp_all add: loopQueue_def)
  moreover have "jumpTo timeToSeconds p timepos = Inr (pln p (TimeposInvalid timepos))"
    using assms(4,5) by (cases timepos) (simp_all add: jumpTo_def)
  moreover have "queueSingle sf_open available resample p source
      = Inr (False, pln p PathNotString)"
    using assms(6) by (cases source) (simp_all add: queueSingle_def)
  ultimately show ?thesis by blast
qed

text \<open>C9, amended, at \<open>solo\<close>: position 7 of a queue of one, a string for \<open>loops\<close>,
  \<^verbatim>\<open>None\<close> for the timecode and an integer for the source.\<close>

theorem invalid_arguments_reported_witness:
  "PInt 7 \<noteq> PStr ''current'' \<and> int (length (sources solo)) \<le> 7
   \<and> (\<exists>r. dequeue solo (PInt 7) = Inr (pln solo r))
   \<and> loopTrack solo PNone (PStr ''twice'') = Inr (pln solo LoopNotInteger)
   \<and> loopQueue solo (PStr ''twice'') = pln solo LoopNotInteger
   \<and> jumpTo clock solo PNone = Inr (pln solo (TimeposInvalid PNone))
   \<and> queueSingle no_decoder 0 keep_rate solo (PInt 3) = Inr (False, pln solo PathNotString)"
proof -
  have len: "int (length (sources solo)) \<le> 7"
    by (simp add: solo_def Player_def)
  have h: "PInt 7 \<noteq> PStr ''current''"
    "\<forall>i. PInt 7 = PInt i \<longrightarrow> i < 0 \<or> int (length (sources solo)) \<le> i"
    "\<forall>n. PStr ''twice'' \<noteq> PInt n"
    "\<forall>n. PNone \<noteq> PInt n" "\<forall>s. PNone \<noteq> PStr s"
    "\<forall>s. PInt 3 \<noteq> PStr s"
    using len by simp_all
  from invalid_arguments_reported [OF h, of PNone clock no_decoder 0 keep_rate] h(1) len
  show ?thesis by blast
qed

subsection \<open>The memory check of loading\<close>

text \<open>
  C5, as the claim states it, fails: the footprint the check of line 253 compares is
  \<open>frames * 4 * 8\<close>, not \<open>frames * 4 * 2\<close>. A file of one frame, 8 bytes by the claim's
  estimate, is refused with 16 bytes free above the headroom.
\<close>

theorem queueSingle_refuses_small_file:
  "frames tiny_file * 4 * 2 \<le> 16777232 - ramBuffer Player
   \<and> queueSingle tiny_decoder 16777232 keep_rate Player (PStr ''a.wav'') =
       Inr (False, Player\<lparr>printed := [Loading ''a.wav'', FileTooLarge]\<rparr>)"
  by (simp add: queueSingle_def tiny_decoder_def tiny_file_def Player_def pln_def Let_def)

text \<open>
  C5, amended: for a source file that opens, \<open>queueSingle\<close> refuses to load it and reports
  that it is too large if and only if \<open>frames * 4 * 8\<close> exceeds the available memory minus
  \<open>ramBuffer\<close> (16 MiB by default); on refusal \<open>sources\<close>, \<open>loops\<close>, \<open>data\<close> and
  \<open>queuePos\<close> are unchanged. Otherwise the file is appended to the queue (a header with
  sampling rate 0 makes the ratio of the rates divide by zero).
\<close>

theorem queueSingle_capacity:
  assumes "sf_open s = Some f"
  shows "if frames f * 4 * 8 > available - ramBuffer p
     then \<exists>p'. queueSingle sf_open available resample p (PStr s) = Inr (False, p')
            \<and> FileTooLarge \<in> set (reported p p')
            \<and> sources p' = sources p \<and> loops p' = loops p \<and> data p' = data p
            \<and> queuePos p' = queuePos p
     else (samplerate f = 0 \<longrightarrow>
             queueSingle sf_open available resample p (PStr s) = Inl ZeroDivisionError)
        \<and> (samplerate f \<noteq> 0 \<longrightarrow>
             (\<exists>p'. queueSingle sf_open available resample p (PStr s) = Inr (True, p')
                \<and> FileTooLarge \<notin> set (reported p p')
                \<and> sources p' = sources p @ [s]))"
  using assms
  by (simp add: queueSingle_def reported_def pln_def Let_def)

text \<open>C5, amended, at a fresh player with 32 bytes free above the headroom: the file of one
  frame is loaded.\<close>

theorem queueSingle_capacity_witness:
  "tiny_decoder ''a.wav'' = Some tiny_file
   \<and> \<not> frames tiny_file * 4 * 8 > 16777248 - ramBuffer Player
   \<and> samplerate tiny_file \<noteq> 0
   \<and> (\<exists>p'. queueSingle tiny_decoder 16777248 keep_rate Player (PStr ''a.wav'') = Inr (True, p')
        \<and> FileTooLarge \<notin> set (reported Player p')
        \<and> sources p' = sources Player @ [''a.wav''])"
proof -
  have h: "tiny_decoder ''a.wav'' = Some tiny_file"
    by (simp add: tiny_decoder_def)
  have c: "\<not> frames tiny_file * 4 * 8 > 16777248 - ramBuffer Player"
    and r: "samplerate tiny_file \<noteq> 0"
    by (simp_all add: tiny_file_def Player_def)
  from queueSingle_capacity [of tiny_decoder "''a.wav''" tiny_file 16777248 Player keep_rate,
      OF h] h c r
  show ?thesis by simp
qed

subsection \<open>Volume in decibels\<close>

text \<open>The bounds of \<open>py_pow10\<close>: between a hundredth and ten the power is representable.\<close>

lemma overflow_bound_large: "(2::real) ^ 54 - 1 \<le> overflow_bound"
proof -
  have "(2::real) ^ 1024 = 2 ^ 970 * 2 ^ 54"
    by (simp only: flip: power_add) simp
  then have split: "overflow_bound = 2 ^ 970 * ((2::real) ^ 54 - 1)"
    by (simp only: overflow_bound_def right_diff_distrib mult_1_right)
  have "(1::real) \<le> 2 ^ 970"
    by (rule one_le_power) simp
  moreover have "(0::real) \<le> 2 ^ 54 - 1" by simp
  ultimately have "1 * ((2::real) ^ 54 - 1) \<le> 2 ^ 970 * (2 ^ 54 - 1)"
    by (rule mult_right_mono)
  with split show ?thesis by (simp only: mult_1)
qed

lemma pow10_below_overflow:
  assumes "y \<le> 1"
  shows "\<not> overflow_bound \<le> 10 powr y"
proof -
  have "(10::real) powr y \<le> 10 powr 1"
    using assms by (intro powr_mono) simp_all
  then have "(10::real) powr y \<le> 10" by simp
  moreover have "(10::real) < 2 ^ 54 - 1" by simp
  ultimately show ?thesis
    using overflow_bound_large by linarith
qed

lemma pow10_above_underflow:
  assumes "- 2 \<le> y"
  shows "\<not> 10 powr y \<le> underflow_bound"
proof -
  have "(10::real) powr (- 2) \<le> 10 powr y"
    using assms by (intro powr_mono) simp_all
  then have low: "1 / 100 \<le> (10::real) powr y"
    by (simp add: powr_minus_divide)
  have "underflow_bound \<le> 2 powr (- 7)"
    unfolding underflow_bound_def by (intro powr_mono) simp_all
  also have "(2::real) powr (- 7) = 1 / 128"
    by (simp add: powr_minus_divide)
  finally have "underflow_bound < 1 / 100" by simp
  with low show ?thesis by linarith
qed

lemma py_pow10_in_range:
  assumes "- 2 \<le> y" and "y \<le> 1"
  shows "py_pow10 y = Inr (10 powr y)"
  using pow10_below_overflow [OF assms(2)] pow10_above_underflow [OF assms(1)]
  by (simp add: py_pow10_def)

text \<open>Far outside the range the float power is not the real one: at -7000 dB the stored
  volume is 0, and at 7000 dB the call raises OverflowError.\<close>

lemma ten_pow_350: "(2::real) ^ 1155 \<le> 10 ^ 350"
proof -
  have "((2::real) ^ 33) ^ 35 \<le> (10 ^ 10) ^ 35"
    by (rule power_mono) simp_all
  moreover have "(33::nat) * 35 = 1155" and "(10::nat) * 35 = 350"
    by simp_all
  ultimately show ?thesis
    by (simp only: flip: power_mult)
qed

lemma setVolumeDB_underflows:
  "setVolumeDB Player (- 7000) 0 = Inr (Player\<lparr>volume := 0\<rparr>)"
proof -
  have "(2::real) ^ 1075 \<le> 2 ^ 1155"
    by (rule power_increasing) simp_all
  then have big: "(2::real) ^ 1075 \<le> 10 ^ 350"
    using ten_pow_350 by (rule order_trans)
  have "(10::real) powr 350 = 10 ^ 350"
    by (rule powr_numeral) simp
  then have ten: "(10::real) powr (- 350) = 1 / 10 ^ 350"
    by (simp only: powr_minus_divide)
  have "(2::real) powr 1075 = 2 ^ 1075"
    by (rule powr_numeral) simp
  then have two: "underflow_bound = 1 / 2 ^ 1075"
    by (simp only: underflow_bound_def powr_minus_divide)
  have "1 / (10::real) ^ 350 \<le> 1 / 2 ^ 1075"
    using big by (intro divide_left_mono mult_pos_pos zero_less_power) simp_all
  with ten two have "(10::real) powr (- 350) \<le> underflow_bound"
    by (simp only:)
  moreover have "\<not> overflow_bound \<le> (10::real) powr (- 350)"
    by (rule pow10_below_overflow) simp
  ultimately have "py_pow10 (- 350) = Inr 0"
    by (simp only: py_pow10_def if_True if_False)
  then show ?thesis
    by (simp add: setVolumeDB_def setVolume_def Let_def)
qed

lemma setVolumeDB_overflows:
  "setVolumeDB Player 7000 0 = Inl OverflowError"
proof -
  have ten: "(10::real) powr 350 = 10 ^ 350"
    by (rule powr_numeral) simp
  have "(2::real) ^ 1024 \<le> 2 ^ 1155"
    by (rule power_increasing) simp_all
  moreover have "(0::real) \<le> 2 ^ 970" by (rule zero_le_power) simp
  ultimately have "overflow_bound \<le> 10 ^ 350"
    using ten_pow_350 unfolding overflow_bound_def by linarith
  with ten have "overflow_bound \<le> (10::real) powr 350"
    by (simp only:)
  then have "py_pow10 350 = Inl OverflowError"
    by (simp only: py_pow10_def if_True)
  then show ?thesis
    by (simp add: setVolumeDB_def)
qed

text \<open>
  C6, as the claim states it, fails above 0 dB: \<open>setVolume\<close> clamps the factor to
  \<open>[0, 1]\<close>, so \<open>setVolumeDB(12)\<close> stores the volume 1, which reads back as 0 dB.
\<close>

theorem setVolumeDB_above_zero_clamped:
  "setVolumeDB Player 12 0 = Inr (Player\<lparr>volume := 1\<rparr>)
   \<and> getVolumeDB (Player\<lparr>volume := 1\<rparr>) = 0"
proof -
  have "(1::real) \<le> 10 powr (12 / 20)"
    by (rule ge_one_powr_ge_zero) simp_all
  moreover have "py_pow10 (12 / 20) = Inr (10 powr (12 / 20))"
    by (rule py_pow10_in_range) simp_all
  ultimately show ?thesis
    by (simp add: setVolumeDB_def setVolume_def getVolumeDB_def Let_def max_def min_def)
qed

text \<open>
  C6, amended: for every \<open>x\<close> of the representative range from -40 dB to +12 dB,
  \<open>setVolumeDB(x)\<close> with pace 0 returns; if \<open>x\<close> is at most 0 dB it stores \<open>10^(x/20)\<close>
  and the volume reads back in decibels as \<open>x\<close> (exactly, the rounding of floats
  idealised); if \<open>x\<close> is above 0 dB it stores the clamped factor 1, which reads back as
  0 dB.
\<close>

theorem setVolumeDB_roundtrip:
  assumes "- 40 \<le> x" and "x \<le> 12"
  shows "\<exists>p'. setVolumeDB p x 0 = Inr p'
     \<and> volume p' = (if x \<le> 0 then 10 powr (x / 20) else 1)
     \<and> getVolumeDB p' = (if x \<le> 0 then x else 0)"
proof -
  let ?v = "(10::real) powr (x / 20)"
  have pow: "py_pow10 (x / 20) = Inr ?v"
    using assms by (intro py_pow10_in_range) simp_all
  have pos: "0 < ?v" by simp
  show ?thesis
  proof (cases "x \<le> 0")
    case True
    then have "?v \<le> 10 powr 0"
      by (intro powr_mono) simp_all
    then have le: "?v \<le> 1" by simp
    have "setVolumeDB p x 0 = Inr (p\<lparr>volume := ?v\<rparr>)"
      using pow pos le by (simp add: setVolumeDB_def setVolume_def Let_def max_def min_def)
    with True show ?thesis
      by (simp add: getVolumeDB_def)
  next
    case False
    then have "(10::real) powr 0 < ?v"
      by (intro powr_less_mono) simp_all
    then have gt: "1 < ?v" by simp
    have "setVolumeDB p x 0 = Inr (p\<lparr>volume := 1\<rparr>)"
      using pow pos gt by (simp add: setVolumeDB_def setVolume_def Let_def max_def min_def)
    with False show ?thesis
      by (simp add: getVolumeDB_def)
  qed
qed

text \<open>C6, amended, on a fresh player: -40 dB is stored as a hundredth and reads back as
  -40 dB; 6 dB is stored as 1 and reads back as 0 dB.\<close>

theorem setVolumeDB_roundtrip_witness:
  "(- 40::real) \<le> - 40 \<and> (- 40::real) \<le> 12 \<and> (- 40::real) \<le> 6 \<and> (6::real) \<le> 12
   \<and> (\<exists>p'. setVolumeDB Player (- 40) 0 = Inr p' \<and> volume p' = 1 / 100
          \<and> getVolumeDB p' = - 40)
   \<and> (\<exists>p'. setVolumeDB Player 6 0 = Inr p' \<and> volume p' = 1 \<and> getVolumeDB p' = 0)"
proof -
  have h: "(- 40::real) \<le> - 40" "(- 40::real) \<le> 12"
    and k: "(- 40::real) \<le> 6" "(6::real) \<le> 12"
    by simp_all
  have "(10::real) powr (- 40 / 20) = 1 / 100"
    by (simp add: powr_minus_divide)
  with setVolumeDB_roundtrip [OF h, of Player] setVolumeDB_roundtrip [OF k, of Player] h k
  show ?thesis by auto
qed

end
